theory Spec2Isabelle
  imports Main "HOL-Library.Word"
begin

section \<open>Machine arithmetic of the Go source\<close>

text \<open>
  \<open>protocol.ByteCount\<close>, \<open>protocol.PacketNumber\<close> and \<open>time.Duration\<close> (nanoseconds) are
  Go \<open>int64\<close>. They are modelled as \<open>int\<close>; every \<open>+\<close> and \<open>*\<close> of the source is followed
  by \<open>wrap64\<close>, the two's complement wrap-around of Go. \<open>uint32\<close> and \<open>uint64\<close> counters are
  machine words.
\<close>

definition wrap64 :: "int \<Rightarrow> int" where
  "wrap64 x = (x + 2 ^ 63) mod 2 ^ 64 - 2 ^ 63"

definition in_int64 :: "int \<Rightarrow> bool" where
  "in_int64 x \<longleftrightarrow> - (2 ^ 63) \<le> x \<and> x < 2 ^ 63"

text \<open>Go's integer division truncates towards zero. Division by zero panics; the callers
  check the divisor first.\<close>

definition quot :: "int \<Rightarrow> int \<Rightarrow> int" where
  "quot a b = wrap64 (sgn a * sgn b * (\<bar>a\<bar> div \<bar>b\<bar>))"

section \<open>HyStart++ detector (hybrid_slow_start_pp.go)\<close>

definition hybridStartppLowWindow :: int where
  "hybridStartppLowWindow = 16"

definition hybridStartppNRttSample :: "32 word" where
  "hybridStartppNRttSample = 8"

definition hybridStartppL :: int where
  "hybridStartppL = 2"

definition hybridStartppDelayMinThresholdUs :: int where
  "hybridStartppDelayMinThresholdUs = 4000"

definition hybridStartppDelayMaxThresholdUs :: int where
  "hybridStartppDelayMaxThresholdUs = 16000"

record HybridSlowStartpp =
  endPacketNumber :: int
  lastSentPacketNumber :: int
  started :: bool
  currentRoundMinRTT :: int
  lastRoundMinRTT :: int
  rttSampleCount :: "32 word"
  inLSS :: bool

text \<open>The Go zero value of the struct, which is how the sender embeds the detector.\<close>

definition hpp_zero :: HybridSlowStartpp where
  "hpp_zero = \<lparr>endPacketNumber = 0, lastSentPacketNumber = 0, started = False,
     currentRoundMinRTT = 0, lastRoundMinRTT = 0, rttSampleCount = 0, inLSS = False\<rparr>"

definition hpp_StartReceiveRound :: "HybridSlowStartpp \<Rightarrow> int \<Rightarrow> HybridSlowStartpp" where
  "hpp_StartReceiveRound s lastSent =
     s\<lparr>endPacketNumber := lastSent,
       lastRoundMinRTT := currentRoundMinRTT s,
       currentRoundMinRTT := 0,
       rttSampleCount := 0,
       inLSS := False,
       started := True\<rparr>"

definition hpp_IsInLSS :: "HybridSlowStartpp \<Rightarrow> bool" where
  "hpp_IsInLSS s = inLSS s"

definition hpp_IsEndOfRound :: "HybridSlowStartpp \<Rightarrow> int \<Rightarrow> bool" where
  "hpp_IsEndOfRound s ack \<longleftrightarrow> endPacketNumber s < ack"

text \<open>
  \<open>ShouldExitSlowStart\<close> returns its boolean together with the updated detector. The
  threshold is written as in the source: the untyped constant
  \<open>hybridStartppDelayMaxThresholdUs\<close> is used as a \<open>time.Duration\<close>, on both sides of
  the clamp.
\<close>

definition hpp_ShouldExitSlowStart ::
  "HybridSlowStartpp \<Rightarrow> int \<Rightarrow> int \<Rightarrow> int \<Rightarrow> int \<Rightarrow> bool \<times> HybridSlowStartpp" where
  "hpp_ShouldExitSlowStart s latestRTT minRTT congestionWindow maxSegmentSize =
     (let s1 = (if \<not> started s then hpp_StartReceiveRound s (lastSentPacketNumber s) else s);
          s2 = s1\<lparr>currentRoundMinRTT := min (currentRoundMinRTT s1) latestRTT\<rparr>;
          s3 = s2\<lparr>rttSampleCount := rttSampleCount s2 + 1\<rparr>
      in if congestionWindow \<ge> wrap64 (hybridStartppLowWindow * maxSegmentSize)
            \<and> rttSampleCount s3 \<ge> hybridStartppNRttSample
         then (let rttThresh = max hybridStartppDelayMaxThresholdUs
                        (min (quot (lastRoundMinRTT s3) 8) hybridStartppDelayMaxThresholdUs)
               in if currentRoundMinRTT s3 \<ge> wrap64 (lastRoundMinRTT s3 + rttThresh)
                  then (True, s3\<lparr>inLSS := True\<rparr>)
                  else (False, s3))
         else (False, s3))"

definition hpp_OnPacketSent :: "HybridSlowStartpp \<Rightarrow> int \<Rightarrow> HybridSlowStartpp" where
  "hpp_OnPacketSent s packetNumber = s\<lparr>lastSentPacketNumber := packetNumber\<rparr>"

definition hpp_OnPacketAcked :: "HybridSlowStartpp \<Rightarrow> int \<Rightarrow> HybridSlowStartpp" where
  "hpp_OnPacketAcked s ackedPacketNumber =
     (if hpp_IsEndOfRound s ackedPacketNumber then s\<lparr>started := False\<rparr> else s)"

definition hpp_Restart :: "HybridSlowStartpp \<Rightarrow> HybridSlowStartpp" where
  "hpp_Restart s = s\<lparr>started := False\<rparr>"

text \<open>The calls a client can make on the detector, and a run of them from a given state.
  A run also collects the answers of \<open>ShouldExitSlowStart\<close>.\<close>

datatype hpp_call =
    StartReceiveRoundCall int
  | OnPacketSentCall int
  | OnPacketAckedCall int
  | ShouldExitSlowStartCall int int int int
  | RestartCall

fun hpp_step :: "HybridSlowStartpp \<Rightarrow> hpp_call \<Rightarrow> bool \<times> HybridSlowStartpp" where
  "hpp_step s (StartReceiveRoundCall lastSent) = (False, hpp_StartReceiveRound s lastSent)"
| "hpp_step s (OnPacketSentCall pn) = (False, hpp_OnPacketSent s pn)"
| "hpp_step s (OnPacketAckedCall pn) = (False, hpp_OnPacketAcked s pn)"
| "hpp_step s (ShouldExitSlowStartCall latestRTT minRTT cwnd mss) =
     hpp_ShouldExitSlowStart s latestRTT minRTT cwnd mss"
| "hpp_step s RestartCall = (False, hpp_Restart s)"

fun hpp_run :: "HybridSlowStartpp \<Rightarrow> hpp_call list \<Rightarrow> bool list \<times> HybridSlowStartpp" where
  "hpp_run s [] = ([], s)"
| "hpp_run s (c # cs) =
     (let (b, s') = hpp_step s c; (bs, s'') = hpp_run s' cs in (b # bs, s''))"

fun nonneg_sample :: "hpp_call \<Rightarrow> bool" where
  "nonneg_sample (ShouldExitSlowStartCall latestRTT minRTT cwnd mss) \<longleftrightarrow> 0 \<le> latestRTT"
| "nonneg_sample _ \<longleftrightarrow> True"

section \<open>Floating point in the Reno cut\<close>

text \<open>
  \<open>protocol.ByteCount(float64(c.congestionWindow) * renoBeta)\<close> is IEEE 754 binary64
  arithmetic: the window is converted to the nearest double, multiplied by the double
  nearest to 0.7, which is \<open>3152519739159347 / 2 ^ 52\<close>, the product is rounded to the
  nearest double (ties to even), and the conversion back truncates towards zero. All values
  involved are far from the subnormal and the overflow range, so rounding to a double is
  rounding to 53 significant bits, which \<open>round53\<close> does on the magnitude.
\<close>

fun bit_length :: "nat \<Rightarrow> nat" where
  "bit_length n = (if n = 0 then 0 else Suc (bit_length (n div 2)))"

declare bit_length.simps [simp del]

definition round53 :: "nat \<Rightarrow> nat" where
  "round53 n =
     (if bit_length n \<le> 53 then n
      else (let e = bit_length n - 53; q = n div 2 ^ e; r = n mod 2 ^ e; h = 2 ^ (e - 1)
            in (if h < r \<or> (r = h \<and> odd q) then q + 1 else q) * 2 ^ e))"

definition renoBeta_mantissa :: nat where
  "renoBeta_mantissa = 3152519739159347"

definition mul_renoBeta :: "int \<Rightarrow> int" where
  "mul_renoBeta w = sgn w * int (round53 (round53 (nat \<bar>w\<bar>) * renoBeta_mantissa) div 2 ^ 52)"

section \<open>Packages the sender uses that are not part of the sources\<close>

text \<open>
  \<open>cubic_sender.go\<close> uses the constants of package \<open>protocol\<close>, the CUBIC window
  function, the pacer and the HyStart detector \<open>HybridSlowStart\<close>; none of their sources is
  available. They are parameters of the model: a record of the three constants and of the
  operations the sender calls, over abstract states \<open>'h\<close> (HyStart), \<open>'c\<close> (CUBIC) and
  \<open>'p\<close> (pacer). The same holds for \<open>UpdateCwndHystartppLowSlowStart\<close>, a floating point
  computation of the HyStart++ detector.
\<close>

record ('h, 'c, 'p) externals =
  MaxByteCount :: int
  MaxCongestionWindowPackets :: int
  InvalidPacketNumber :: int
  hss_zero :: 'h
  hss_OnPacketSent :: "'h \<Rightarrow> int \<Rightarrow> 'h"
  hss_OnPacketAcked :: "'h \<Rightarrow> int \<Rightarrow> 'h"
  hss_ShouldExitSlowStart :: "'h \<Rightarrow> int \<Rightarrow> int \<Rightarrow> int \<Rightarrow> bool \<times> 'h"
  hss_Restart :: "'h \<Rightarrow> 'h"
  NewCubic :: 'c
  cubic_Reset :: "'c \<Rightarrow> 'c"
  cubic_OnApplicationLimited :: "'c \<Rightarrow> 'c"
  cubic_CongestionWindowAfterPacketLoss :: "'c \<Rightarrow> int \<Rightarrow> int \<times> 'c"
  cubic_CongestionWindowAfterAck :: "'c \<Rightarrow> int \<Rightarrow> int \<Rightarrow> int \<Rightarrow> int \<Rightarrow> int \<times> 'c"
  newPacer :: 'p
  pacer_SentPacket :: "'p \<Rightarrow> int \<Rightarrow> int \<Rightarrow> 'p"
  pacer_SetMaxDatagramSize :: "'p \<Rightarrow> int \<Rightarrow> 'p"
  UpdateCwndHystartppLowSlowStart ::
    "HybridSlowStartpp \<Rightarrow> int \<Rightarrow> int \<Rightarrow> int \<Rightarrow> int \<Rightarrow> int \<Rightarrow> int"

text \<open>Modelled from the spec: \<open>HybridSlowStartpp.QuitLSS\<close>, called by \<open>OnPacketLost\<close>, is
  missing from hybrid_slow_start_pp.go. The spec's loss response says \<open>in_lss := false\<close>.\<close>

definition hpp_QuitLSS :: "HybridSlowStartpp \<Rightarrow> HybridSlowStartpp" where
  "hpp_QuitLSS s = s\<lparr>inLSS := False\<rparr>"

text \<open>Modelled from the spec: \<open>HybridSlowStartpp.UpdateCwndHystartppSlowStart\<close>, called by
  \<open>maybeIncreaseCwnd\<close>, is missing from hybrid_slow_start_pp.go. The spec says that growth
  before Limited Slow Start is \<open>cwnd + min(acked_bytes, 2 \<times> max_datagram_size)\<close>, which is
  also the second branch of the source's \<open>UpdateCwndHystartpp\<close>.\<close>

definition hpp_UpdateCwndHystartppSlowStart ::
  "HybridSlowStartpp \<Rightarrow> int \<Rightarrow> int \<Rightarrow> int \<Rightarrow> int" where
  "hpp_UpdateCwndHystartppSlowStart s ackedBytes cwnd maxDatagramSize' =
     wrap64 (cwnd + min ackedBytes (hybridStartppL * maxDatagramSize'))"

section \<open>The sender (cubic_sender.go)\<close>

datatype StartAlgo = ChooseSlowStart | ChooseHystart | ChooseHystartpp

datatype CongestionAlgo = ChooseNewReno | ChooseCubic

datatype CongestionState =
    CongestionStateSlowStart
  | CongestionStateLowSlowStart
  | CongestionStateCongestionAvoidance
  | CongestionStateRecovery
  | CongestionStateApplicationLimited

text \<open>The two ways an operation of the sender can panic: an integer division by a zero
  \<open>maxDatagramSize\<close>, and the explicit panic of \<open>SetMaxDatagramSize\<close> (with the old and
  the new size of its message).\<close>

datatype panic = DivideByZero | DecreasedMaxDatagramSize int int

definition maxBurstPackets :: int where
  "maxBurstPackets = 3"

definition minCongestionWindowPackets :: int where
  "minCongestionWindowPackets = 2"

definition initialCongestionWindow_const :: int where
  "initialCongestionWindow_const = 32"

text \<open>What the sender reads from \<open>utils.RTTStats\<close> when it is called.\<close>

record RTTStats =
  LatestRTT :: int
  MinRTT :: int

text \<open>
  The struct. \<open>tracer\<close> says whether the tracer is non-nil, and \<open>traced\<close> is the list of
  states it has received through \<open>UpdatedCongestionState\<close>, oldest first. The clock and the
  RTT statistics are outside: the operations that read the RTT take it as an argument.
\<close>

record ('h, 'c, 'p) cubicSender =
  hybridSlowStart :: 'h
  hybridSlowStartpp :: HybridSlowStartpp
  cubic :: 'c
  pacer :: 'p
  chosenStartAlgo :: StartAlgo
  chosenCongestionAlgo :: CongestionAlgo
  largestSentPacketNumber :: int
  largestAckedPacketNumber :: int
  largestSentAtLastCutback :: int
  lastCutbackExitedSlowstart :: bool
  congestionWindow :: int
  slowStartThreshold :: int
  numAckedPackets :: "64 word"
  initialCongestionWindow :: int
  initialMaxCongestionWindow :: int
  maxDatagramSize :: int
  lastState :: CongestionState
  tracer :: bool
  traced :: "CongestionState list"

text \<open>Without a tracer \<open>lastState\<close> keeps the zero value of its type and is never read;
  the model puts \<open>CongestionStateSlowStart\<close> there.\<close>

text \<open>An operation that can panic returns \<open>Inr\<close> of the new state, or \<open>Inl\<close> of the panic
  together with the state the sender has reached when it panics: what the operation has
  written and traced before is not undone.\<close>

type_synonym ('h, 'c, 'p) outcome = "(panic \<times> ('h, 'c, 'p) cubicSender) + ('h, 'c, 'p) cubicSender"

definition newCubicSender ::
  "('h, 'c, 'p) externals \<Rightarrow> StartAlgo \<Rightarrow> CongestionAlgo \<Rightarrow> int \<Rightarrow> int \<Rightarrow> int \<Rightarrow> bool
     \<Rightarrow> ('h, 'c, 'p) cubicSender" where
  "newCubicSender E startAlgo congAlgo initialMaxDatagramSize initialCwnd initialMaxCwnd tr =
     \<lparr>hybridSlowStart = hss_zero E,
      hybridSlowStartpp = hpp_zero,
      cubic = NewCubic E,
      pacer = newPacer E,
      chosenStartAlgo = startAlgo,
      chosenCongestionAlgo = congAlgo,
      largestSentPacketNumber = InvalidPacketNumber E,
      largestAckedPacketNumber = InvalidPacketNumber E,
      largestSentAtLastCutback = InvalidPacketNumber E,
      lastCutbackExitedSlowstart = False,
      congestionWindow = initialCwnd,
      slowStartThreshold = MaxByteCount E,
      numAckedPackets = 0,
      initialCongestionWindow = initialCwnd,
      initialMaxCongestionWindow = initialMaxCwnd,
      maxDatagramSize = initialMaxDatagramSize,
      lastState = CongestionStateSlowStart,
      tracer = tr,
      traced = (if tr then [CongestionStateSlowStart] else [])\<rparr>"

definition NewCubicSender ::
  "('h, 'c, 'p) externals \<Rightarrow> int \<Rightarrow> StartAlgo \<Rightarrow> CongestionAlgo \<Rightarrow> bool
     \<Rightarrow> ('h, 'c, 'p) cubicSender" where
  "NewCubicSender E initialMaxDatagramSize startAlgo congAlgo tr =
     newCubicSender E startAlgo congAlgo initialMaxDatagramSize
       (wrap64 (initialCongestionWindow_const * initialMaxDatagramSize))
       (wrap64 (MaxCongestionWindowPackets E * initialMaxDatagramSize))
       tr"

definition maxCongestionWindow :: "('h, 'c, 'p) externals \<Rightarrow> ('h, 'c, 'p) cubicSender \<Rightarrow> int" where
  "maxCongestionWindow E c = wrap64 (maxDatagramSize c * MaxCongestionWindowPackets E)"

definition minCongestionWindow :: "('h, 'c, 'p) cubicSender \<Rightarrow> int" where
  "minCongestionWindow c = wrap64 (maxDatagramSize c * minCongestionWindowPackets)"

definition GetCongestionWindow :: "('h, 'c, 'p) cubicSender \<Rightarrow> int" where
  "GetCongestionWindow c = congestionWindow c"

definition CanSend :: "('h, 'c, 'p) cubicSender \<Rightarrow> int \<Rightarrow> bool" where
  "CanSend c bytesInFlight \<longleftrightarrow> bytesInFlight < GetCongestionWindow c"

definition InRecovery :: "('h, 'c, 'p) externals \<Rightarrow> ('h, 'c, 'p) cubicSender \<Rightarrow> bool" where
  "InRecovery E c \<longleftrightarrow>
     largestAckedPacketNumber c \<noteq> InvalidPacketNumber E
     \<and> largestAckedPacketNumber c \<le> largestSentAtLastCutback c"

definition InSlowStart :: "('h, 'c, 'p) cubicSender \<Rightarrow> bool" where
  "InSlowStart c \<longleftrightarrow> GetCongestionWindow c < slowStartThreshold c"

definition InLowSlowStart :: "('h, 'c, 'p) cubicSender \<Rightarrow> bool" where
  "InLowSlowStart c \<longleftrightarrow>
     chosenStartAlgo c = ChooseHystartpp \<and> hpp_IsInLSS (hybridSlowStartpp c)"

definition maybeTraceStateChange ::
  "('h, 'c, 'p) cubicSender \<Rightarrow> CongestionState \<Rightarrow> ('h, 'c, 'p) cubicSender" where
  "maybeTraceStateChange c new =
     (if \<not> tracer c \<or> new = lastState c then c
      else c\<lparr>traced := traced c @ [new], lastState := new\<rparr>)"

definition OnPacketSent ::
  "('h, 'c, 'p) externals \<Rightarrow> ('h, 'c, 'p) cubicSender \<Rightarrow> int \<Rightarrow> int \<Rightarrow> int \<Rightarrow> bool
     \<Rightarrow> ('h, 'c, 'p) cubicSender" where
  "OnPacketSent E c sentTime packetNumber bytes isRetransmittable =
     (let c1 = c\<lparr>pacer := pacer_SentPacket E (pacer c) sentTime bytes\<rparr>
      in if \<not> isRetransmittable then c1
         else (let c2 = c1\<lparr>largestSentPacketNumber := packetNumber\<rparr>
               in case chosenStartAlgo c2 of
                    ChooseHystart \<Rightarrow>
                      c2\<lparr>hybridSlowStart := hss_OnPacketSent E (hybridSlowStart c2) packetNumber\<rparr>
                  | ChooseHystartpp \<Rightarrow>
                      c2\<lparr>hybridSlowStartpp := hpp_OnPacketSent (hybridSlowStartpp c2) packetNumber\<rparr>
                  | ChooseSlowStart \<Rightarrow> c2))"

text \<open>
  \<open>MaybeExitSlowStart\<close> divides by \<open>maxDatagramSize\<close> while it evaluates the arguments of
  the detector call, which panics when the size is zero. The call site passes the window
  in packets and three arguments, while \<open>ShouldExitSlowStart\<close> of hybrid_slow_start_pp.go
  has a fourth parameter \<open>maxSegmentSize\<close>; the model passes 1 for it, so that the
  detector compares the window in packets with \<open>hybridStartppLowWindow\<close>.
\<close>

definition MaybeExitSlowStart ::
  "('h, 'c, 'p) externals \<Rightarrow> ('h, 'c, 'p) cubicSender \<Rightarrow> RTTStats
     \<Rightarrow> ('h, 'c, 'p) outcome" where
  "MaybeExitSlowStart E c rtt =
     (if InSlowStart c then
        (case chosenStartAlgo c of
           ChooseSlowStart \<Rightarrow> Inr c
         | ChooseHystart \<Rightarrow>
             if maxDatagramSize c = 0 then Inl (DivideByZero, c)
             else (let (b, h) = hss_ShouldExitSlowStart E (hybridSlowStart c) (LatestRTT rtt)
                                  (MinRTT rtt) (quot (GetCongestionWindow c) (maxDatagramSize c));
                       c1 = c\<lparr>hybridSlowStart := h\<rparr>
                   in if b then Inr (maybeTraceStateChange
                                       (c1\<lparr>slowStartThreshold := congestionWindow c1\<rparr>)
                                       CongestionStateCongestionAvoidance)
                      else Inr c1)
         | ChooseHystartpp \<Rightarrow>
             if maxDatagramSize c = 0 then Inl (DivideByZero, c)
             else (let (b, h) = hpp_ShouldExitSlowStart (hybridSlowStartpp c) (LatestRTT rtt)
                                  (MinRTT rtt) (quot (GetCongestionWindow c) (maxDatagramSize c)) 1;
                       c1 = c\<lparr>hybridSlowStartpp := h\<rparr>
                   in if b then Inr (maybeTraceStateChange
                                       (c1\<lparr>slowStartThreshold := congestionWindow c1\<rparr>)
                                       CongestionStateLowSlowStart)
                      else Inr c1))
      else Inr c)"

definition isCwndLimited :: "('h, 'c, 'p) cubicSender \<Rightarrow> int \<Rightarrow> bool" where
  "isCwndLimited c bytesInFlight =
     (let cw = GetCongestionWindow c
      in if bytesInFlight \<ge> cw then True
         else (let availableBytes = wrap64 (cw - bytesInFlight);
                   slowStartLimited = (InSlowStart c \<and> bytesInFlight > quot cw 2)
               in slowStartLimited \<or> availableBytes \<le> wrap64 (maxBurstPackets * maxDatagramSize c)))"

text \<open>
  \<open>maybeIncreaseCwnd\<close>. The two NewReno branches divide by \<open>maxDatagramSize\<close>. In the
  Limited Slow Start branch the \<open>switch\<close> of the source has a \<open>default\<close> case after the
  two algorithms; Go does not fall through, so with the two values of \<open>CongestionAlgo\<close> the
  default is never taken.
\<close>

definition maybeIncreaseCwnd ::
  "('h, 'c, 'p) externals \<Rightarrow> ('h, 'c, 'p) cubicSender \<Rightarrow> RTTStats \<Rightarrow> int \<Rightarrow> int \<Rightarrow> int \<Rightarrow> int
     \<Rightarrow> ('h, 'c, 'p) outcome" where
  "maybeIncreaseCwnd E c rtt ackedPacketNumber ackedBytes priorInFlight eventTime =
     (if \<not> isCwndLimited c priorInFlight then
        Inr (maybeTraceStateChange (c\<lparr>cubic := cubic_OnApplicationLimited E (cubic c)\<rparr>)
               CongestionStateApplicationLimited)
      else if congestionWindow c \<ge> maxCongestionWindow E c then Inr c
      else if InSlowStart c then
        (let c1 = maybeTraceStateChange c CongestionStateSlowStart
         in case chosenStartAlgo c1 of
              ChooseHystartpp \<Rightarrow>
                Inr (c1\<lparr>congestionWindow :=
                           hpp_UpdateCwndHystartppSlowStart (hybridSlowStartpp c1) ackedBytes
                             (congestionWindow c1) (maxDatagramSize c1)\<rparr>)
            | _ \<Rightarrow> Inr (c1\<lparr>congestionWindow := wrap64 (congestionWindow c1 + maxDatagramSize c1)\<rparr>))
      else if InLowSlowStart c then
        (let c1 = maybeTraceStateChange c CongestionStateLowSlowStart
         in case chosenCongestionAlgo c1 of
              ChooseNewReno \<Rightarrow>
                if maxDatagramSize c1 = 0 then Inl (DivideByZero, c1)
                else (let caWindow =
                            (if numAckedPackets c1
                                  \<ge> word_of_int (quot (congestionWindow c1) (maxDatagramSize c1))
                             then wrap64 (congestionWindow c1 + maxDatagramSize c1)
                             else congestionWindow c1)
                      in Inr (c1\<lparr>congestionWindow :=
                                   UpdateCwndHystartppLowSlowStart E (hybridSlowStartpp c1) ackedBytes
                                     (congestionWindow c1) (maxDatagramSize c1)
                                     (slowStartThreshold c1) caWindow\<rparr>))
            | ChooseCubic \<Rightarrow>
                (let (w, cu) = cubic_CongestionWindowAfterAck E (cubic c1) ackedBytes
                                 (congestionWindow c1) (MinRTT rtt) eventTime;
                     caWindow = min (maxCongestionWindow E c1) w;
                     c2 = c1\<lparr>cubic := cu\<rparr>
                 in Inr (c2\<lparr>congestionWindow :=
                              UpdateCwndHystartppLowSlowStart E (hybridSlowStartpp c2) ackedBytes
                                (congestionWindow c2) (maxDatagramSize c2)
                                (slowStartThreshold c2) caWindow\<rparr>)))
      else
        (let c1 = maybeTraceStateChange c CongestionStateCongestionAvoidance
         in case chosenCongestionAlgo c1 of
              ChooseNewReno \<Rightarrow>
                (let c2 = c1\<lparr>numAckedPackets := numAckedPackets c1 + 1\<rparr>
                 in if maxDatagramSize c2 = 0 then Inl (DivideByZero, c2)
                    else if numAckedPackets c2
                              \<ge> word_of_int (quot (congestionWindow c2) (maxDatagramSize c2))
                    then Inr (c2\<lparr>congestionWindow := wrap64 (congestionWindow c2 + maxDatagramSize c2),
                                 numAckedPackets := 0\<rparr>)
                    else Inr c2)
            | ChooseCubic \<Rightarrow>
                (let (w, cu) = cubic_CongestionWindowAfterAck E (cubic c1) ackedBytes
                                 (congestionWindow c1) (MinRTT rtt) eventTime
                 in Inr (c1\<lparr>cubic := cu,
                             congestionWindow := min (maxCongestionWindow E c1) w\<rparr>))))"

definition OnPacketAcked ::
  "('h, 'c, 'p) externals \<Rightarrow> ('h, 'c, 'p) cubicSender \<Rightarrow> RTTStats \<Rightarrow> int \<Rightarrow> int \<Rightarrow> int \<Rightarrow> int
     \<Rightarrow> ('h, 'c, 'p) outcome" where
  "OnPacketAcked E c rtt ackedPacketNumber ackedBytes priorInFlight eventTime =
     (let c1 = c\<lparr>largestAckedPacketNumber := max ackedPacketNumber (largestAckedPacketNumber c)\<rparr>
      in if InRecovery E c1 then Inr c1
         else (case maybeIncreaseCwnd E c1 rtt ackedPacketNumber ackedBytes priorInFlight eventTime of
                 Inl p \<Rightarrow> Inl p
               | Inr c2 \<Rightarrow>
                   if InSlowStart c2 then
                     (case chosenStartAlgo c2 of
                        ChooseHystartpp \<Rightarrow>
                          Inr (c2\<lparr>hybridSlowStartpp :=
                                     hpp_OnPacketAcked (hybridSlowStartpp c2) ackedPacketNumber\<rparr>)
                      | _ \<Rightarrow>
                          Inr (c2\<lparr>hybridSlowStart :=
                                     hss_OnPacketAcked E (hybridSlowStart c2) ackedPacketNumber\<rparr>))
                   else Inr c2))"

text \<open>The two branches of \<open>OnPacketLost\<close> differ only in how the window is reduced.\<close>

definition cutback ::
  "('h, 'c, 'p) cubicSender \<Rightarrow> (('h, 'c, 'p) cubicSender \<Rightarrow> ('h, 'c, 'p) cubicSender)
     \<Rightarrow> ('h, 'c, 'p) cubicSender" where
  "cutback c reduce =
     (let c1 = c\<lparr>lastCutbackExitedSlowstart := InSlowStart c\<rparr>;
          c2 = maybeTraceStateChange c1 CongestionStateRecovery;
          c3 = reduce c2;
          c4 = (if congestionWindow c3 < minCongestionWindow c3
                then c3\<lparr>congestionWindow := minCongestionWindow c3\<rparr> else c3)
      in c4\<lparr>slowStartThreshold := congestionWindow c4,
            largestSentAtLastCutback := largestSentPacketNumber c4,
            numAckedPackets := 0\<rparr>)"

definition OnPacketLost ::
  "('h, 'c, 'p) externals \<Rightarrow> ('h, 'c, 'p) cubicSender \<Rightarrow> int \<Rightarrow> int \<Rightarrow> int
     \<Rightarrow> ('h, 'c, 'p) cubicSender" where
  "OnPacketLost E c packetNumber lostBytes priorInFlight =
     (let c1 = (if InLowSlowStart c
                then maybeTraceStateChange
                       (c\<lparr>hybridSlowStartpp := hpp_QuitLSS (hybridSlowStartpp c),
                          chosenStartAlgo := ChooseSlowStart\<rparr>)
                       CongestionStateCongestionAvoidance
                else c)
      in case chosenCongestionAlgo c1 of
           ChooseNewReno \<Rightarrow>
             if packetNumber \<le> largestSentAtLastCutback c1 then c1
             else cutback c1 (\<lambda>c'. c'\<lparr>congestionWindow := mul_renoBeta (congestionWindow c')\<rparr>)
         | ChooseCubic \<Rightarrow>
             if packetNumber \<le> largestSentAtLastCutback c1 then c1
             else cutback c1
                    (\<lambda>c'. let (w, cu) = cubic_CongestionWindowAfterPacketLoss E (cubic c')
                                          (congestionWindow c')
                          in c'\<lparr>cubic := cu, congestionWindow := w\<rparr>))"

definition OnRetransmissionTimeout ::
  "('h, 'c, 'p) externals \<Rightarrow> ('h, 'c, 'p) cubicSender \<Rightarrow> bool \<Rightarrow> ('h, 'c, 'p) cubicSender" where
  "OnRetransmissionTimeout E c packetsRetransmitted =
     (let c1 = c\<lparr>largestSentAtLastCutback := InvalidPacketNumber E\<rparr>
      in if \<not> packetsRetransmitted then c1
         else (let c2 = (case chosenStartAlgo c1 of
                           ChooseHystartpp \<Rightarrow>
                             c1\<lparr>hybridSlowStartpp := hpp_Restart (hybridSlowStartpp c1)\<rparr>
                         | ChooseHystart \<Rightarrow>
                             c1\<lparr>hybridSlowStart := hss_Restart E (hybridSlowStart c1)\<rparr>
                         | ChooseSlowStart \<Rightarrow> c1);
                   c3 = c2\<lparr>cubic := cubic_Reset E (cubic c2)\<rparr>;
                   c4 = c3\<lparr>slowStartThreshold := quot (congestionWindow c3) 2\<rparr>
               in c4\<lparr>congestionWindow := minCongestionWindow c4\<rparr>))"

definition OnConnectionMigration ::
  "('h, 'c, 'p) externals \<Rightarrow> ('h, 'c, 'p) cubicSender \<Rightarrow> ('h, 'c, 'p) cubicSender" where
  "OnConnectionMigration E c =
     (let c1 = (case chosenStartAlgo c of
                  ChooseHystart \<Rightarrow> c\<lparr>hybridSlowStart := hss_Restart E (hybridSlowStart c)\<rparr>
                | ChooseHystartpp \<Rightarrow> c\<lparr>hybridSlowStartpp := hpp_Restart (hybridSlowStartpp c)\<rparr>
                | ChooseSlowStart \<Rightarrow> c)
      in c1\<lparr>largestSentPacketNumber := InvalidPacketNumber E,
            largestAckedPacketNumber := InvalidPacketNumber E,
            largestSentAtLastCutback := InvalidPacketNumber E,
            lastCutbackExitedSlowstart := False,
            cubic := cubic_Reset E (cubic c1),
            numAckedPackets := 0,
            congestionWindow := initialCongestionWindow c1,
            slowStartThreshold := initialMaxCongestionWindow c1\<rparr>)"

definition SetMaxDatagramSize ::
  "('h, 'c, 'p) externals \<Rightarrow> ('h, 'c, 'p) cubicSender \<Rightarrow> int \<Rightarrow> ('h, 'c, 'p) outcome" where
  "SetMaxDatagramSize E c s =
     (if s < maxDatagramSize c then Inl (DecreasedMaxDatagramSize (maxDatagramSize c) s, c)
      else (let cwndIsMinCwnd = (congestionWindow c = minCongestionWindow c);
                c1 = c\<lparr>maxDatagramSize := s\<rparr>;
                c2 = (if cwndIsMinCwnd then c1\<lparr>congestionWindow := minCongestionWindow c1\<rparr> else c1)
            in Inr (c2\<lparr>pacer := pacer_SetMaxDatagramSize E (pacer c2) s\<rparr>)))"

subsection \<open>Sequences of operations\<close>

text \<open>The state-changing operations of the sender as events; a run stops at the first panic.\<close>

datatype sender_event =
    PacketSent int int int bool
  | ExitCheck RTTStats
  | PacketAcked RTTStats int int int int
  | PacketLost int int int
  | RetransmissionTimeout bool
  | ConnectionMigration
  | MaxDatagramSizeSet int

fun apply_event ::
  "('h, 'c, 'p) externals \<Rightarrow> ('h, 'c, 'p) cubicSender \<Rightarrow> sender_event
     \<Rightarrow> ('h, 'c, 'p) outcome" where
  "apply_event E c (PacketSent sentTime pn bytes isRetransmittable) =
     Inr (OnPacketSent E c sentTime pn bytes isRetransmittable)"
| "apply_event E c (ExitCheck rtt) = MaybeExitSlowStart E c rtt"
| "apply_event E c (PacketAcked rtt pn ackedBytes priorInFlight eventTime) =
     OnPacketAcked E c rtt pn ackedBytes priorInFlight eventTime"
| "apply_event E c (PacketLost pn lostBytes priorInFlight) =
     Inr (OnPacketLost E c pn lostBytes priorInFlight)"
| "apply_event E c (RetransmissionTimeout packetsRetransmitted) =
     Inr (OnRetransmissionTimeout E c packetsRetransmitted)"
| "apply_event E c ConnectionMigration = Inr (OnConnectionMigration E c)"
| "apply_event E c (MaxDatagramSizeSet s) = SetMaxDatagramSize E c s"

fun run_events ::
  "('h, 'c, 'p) externals \<Rightarrow> ('h, 'c, 'p) cubicSender \<Rightarrow> sender_event list
     \<Rightarrow> ('h, 'c, 'p) outcome" where
  "run_events E c [] = Inr c"
| "run_events E c (e # es) =
     (case apply_event E c e of Inl p \<Rightarrow> Inl p | Inr c' \<Rightarrow> run_events E c' es)"

subsection \<open>An instance of the parameters\<close>

text \<open>
  For evaluating the sender on concrete inputs: the constants have the values of quic-go's
  package \<open>protocol\<close> (\<open>MaxByteCount = 2 ^ 62 - 1\<close>, \<open>MaxCongestionWindowPackets = 10000\<close>,
  \<open>InvalidPacketNumber = -1\<close>); HyStart, CUBIC and the pacer have no state and do nothing,
  the windows they return are the window they are given.
\<close>

definition plain_externals :: "(unit, unit, unit) externals" where
  "plain_externals =
     \<lparr>MaxByteCount = 2 ^ 62 - 1,
      MaxCongestionWindowPackets = 10000,
      InvalidPacketNumber = - 1,
      hss_zero = (),
      hss_OnPacketSent = (\<lambda>h pn. h),
      hss_OnPacketAcked = (\<lambda>h pn. h),
      hss_ShouldExitSlowStart = (\<lambda>h latestRTT minRTT cwnd. (False, h)),
      hss_Restart = (\<lambda>h. h),
      NewCubic = (),
      cubic_Reset = (\<lambda>cu. cu),
      cubic_OnApplicationLimited = (\<lambda>cu. cu),
      cubic_CongestionWindowAfterPacketLoss = (\<lambda>cu w. (w, cu)),
      cubic_CongestionWindowAfterAck = (\<lambda>cu ackedBytes w delayMin eventTime. (w, cu)),
      newPacer = (),
      pacer_SentPacket = (\<lambda>pa sentTime bytes. pa),
      pacer_SetMaxDatagramSize = (\<lambda>pa s. pa),
      UpdateCwndHystartppLowSlowStart = (\<lambda>s ackedBytes cwnd mds ssthresh caWindow. max cwnd caWindow)\<rparr>"

section \<open>Concrete states and auxiliary notions of the properties\<close>

subsection \<open>Detector\<close>


text \<open>With samples that are not negative the two minima never leave zero.\<close>

definition hpp_stuck :: "HybridSlowStartpp \<Rightarrow> bool" where
  "hpp_stuck s \<longleftrightarrow> currentRoundMinRTT s = 0 \<and> lastRoundMinRTT s = 0 \<and> \<not> inLSS s"

text \<open>A sequence of detector calls with positive samples, over two rounds.\<close>

definition hpp_demo_calls :: "hpp_call list" where
  "hpp_demo_calls =
     OnPacketSentCall 40 # replicate 9 (ShouldExitSlowStartCall 45000000 40000000 48000 1200)
     @ [OnPacketAckedCall 41, ShouldExitSlowStartCall 90000000 40000000 48000 1200]"

subsection \<open>Sender\<close>

text \<open>The state an operation leaves behind, whether it panics or not.\<close>

definition outcome_state :: "('h, 'c, 'p) outcome \<Rightarrow> ('h, 'c, 'p) cubicSender" where
  "outcome_state r = (case r of Inl (p, c) \<Rightarrow> c | Inr c \<Rightarrow> c)"

text \<open>A fresh sender with datagrams of 1200 bytes, classic slow start, NewReno and a
  tracer: its window is 38400 bytes.\<close>

definition sender_1200 :: "(unit, unit, unit) cubicSender" where
  "sender_1200 = NewCubicSender plain_externals 1200 ChooseSlowStart ChooseNewReno True"

text \<open>The fresh sender after a retransmission timeout: its window is the minimum window.\<close>

definition sender_rto :: "(unit, unit, unit) cubicSender" where
  "sender_rto = OnRetransmissionTimeout plain_externals sender_1200 True"


text \<open>The fresh sender after it has sent packet 5, and after a connection migration that
  follows.\<close>

definition sender_sent5 :: "(unit, unit, unit) cubicSender" where
  "sender_sent5 = OnPacketSent plain_externals sender_1200 0 5 1200 True"

definition sender_migrated :: "(unit, unit, unit) cubicSender" where
  "sender_migrated = OnConnectionMigration plain_externals sender_sent5"


text \<open>The fields that are set at construction and that no operation writes.\<close>

definition same_setup :: "('h, 'c, 'p) cubicSender \<Rightarrow> ('h, 'c, 'p) cubicSender \<Rightarrow> bool" where
  "same_setup c c' \<longleftrightarrow>
     tracer c' = tracer c
     \<and> chosenCongestionAlgo c' = chosenCongestionAlgo c
     \<and> initialCongestionWindow c' = initialCongestionWindow c
     \<and> initialMaxCongestionWindow c' = initialMaxCongestionWindow c"

text \<open>The invariant of the trace: with a tracer, the list of traced states starts with
  \<open>CongestionStateSlowStart\<close>, ends with \<open>lastState\<close> and has no two equal neighbours.\<close>

definition trace_ok :: "('h, 'c, 'p) cubicSender \<Rightarrow> bool" where
  "trace_ok c \<longleftrightarrow>
     (if tracer c
      then traced c \<noteq> [] \<and> hd (traced c) = CongestionStateSlowStart
           \<and> last (traced c) = lastState c \<and> distinct_adj (traced c)
      else traced c = [])"

section \<open>Properties of the HyStart++ detector\<close>

lemma wrap64_id: "in_int64 x \<Longrightarrow> wrap64 x = x"
  by (simp add: wrap64_def in_int64_def)

text \<open>What the source's test is: the delay threshold is the constant 16000, whatever the
  minimum of the last round.\<close>

lemma hpp_ShouldExitSlowStart_iff:
  assumes "hpp_ShouldExitSlowStart s latestRTT minRTT cwnd mss = (b, s')"
  shows "b \<longleftrightarrow> cwnd \<ge> wrap64 (16 * mss) \<and> rttSampleCount s' \<ge> 8
           \<and> currentRoundMinRTT s' \<ge> wrap64 (lastRoundMinRTT s' + 16000)"
  using assms
  by (auto simp: hpp_ShouldExitSlowStart_def Let_def hybridStartppLowWindow_def
      hybridStartppNRttSample_def hybridStartppDelayMaxThresholdUs_def split: if_splits)


lemma wrap64_16000: "wrap64 16000 = 16000"
  by (simp add: wrap64_def)

lemma hpp_ShouldExitSlowStart_stuck:
  assumes "hpp_stuck s" and "0 \<le> latestRTT"
  shows "hpp_ShouldExitSlowStart s latestRTT minRTT cwnd mss = (b, s') \<Longrightarrow> \<not> b \<and> hpp_stuck s'"
  using assms
  by (auto simp: hpp_ShouldExitSlowStart_def hpp_StartReceiveRound_def hpp_stuck_def Let_def
      quot_def hybridStartppDelayMaxThresholdUs_def wrap64_16000 split: if_splits)

lemma hpp_step_stuck:
  assumes "hpp_stuck s" and "nonneg_sample c" and "hpp_step s c = (b, s')"
  shows "\<not> b \<and> hpp_stuck s'"
proof (cases c)
  case (ShouldExitSlowStartCall l m w g)
  with assms show ?thesis
    using hpp_ShouldExitSlowStart_stuck [of s l m w g b s'] by simp
next
  case (StartReceiveRoundCall p)
  with assms show ?thesis by (auto simp: hpp_StartReceiveRound_def hpp_stuck_def)
next
  case (OnPacketSentCall p)
  with assms show ?thesis by (auto simp: hpp_OnPacketSent_def hpp_stuck_def)
next
  case (OnPacketAckedCall p)
  with assms show ?thesis
    by (auto simp: hpp_OnPacketAcked_def hpp_stuck_def split: if_splits)
next
  case RestartCall
  with assms show ?thesis by (auto simp: hpp_Restart_def hpp_stuck_def)
qed

lemma hpp_run_stuck:
  "hpp_stuck s \<Longrightarrow> \<forall>c \<in> set cs. nonneg_sample c \<Longrightarrow>
     hpp_stuck (snd (hpp_run s cs)) \<and> True \<notin> set (fst (hpp_run s cs))"
proof (induction cs arbitrary: s)
  case Nil
  then show ?case by simp
next
  case (Cons c cs)
  obtain b s' where st: "hpp_step s c = (b, s')" by (cases "hpp_step s c")
  from Cons.prems st have "\<not> b \<and> hpp_stuck s'"
    using hpp_step_stuck [of s c b s'] by simp
  moreover from this Cons
  have "hpp_stuck (snd (hpp_run s' cs)) \<and> True \<notin> set (fst (hpp_run s' cs))"
    by simp
  ultimately show ?case using st by (simp add: split_beta)
qed

text \<open>
  C2. From the zero value of the detector, along every sequence of calls whose RTT samples
  are not negative, \<open>currentRoundMinRTT\<close> and \<open>lastRoundMinRTT\<close> are 0 after the
  sequence, \<open>inLSS\<close> is false, and no call of \<open>ShouldExitSlowStart\<close> in it has answered
  true. As the sequence is arbitrary, this holds after each of its prefixes.
\<close>

theorem hpp_never_exits_on_nonneg_samples:
  assumes "list_all nonneg_sample cs"
  shows "currentRoundMinRTT (snd (hpp_run hpp_zero cs)) = 0
       \<and> lastRoundMinRTT (snd (hpp_run hpp_zero cs)) = 0
       \<and> \<not> inLSS (snd (hpp_run hpp_zero cs))
       \<and> True \<notin> set (fst (hpp_run hpp_zero cs))"
proof -
  have "hpp_stuck hpp_zero" by (simp add: hpp_stuck_def hpp_zero_def)
  moreover from assms have "\<forall>c \<in> set cs. nonneg_sample c" by (simp add: list_all_iff)
  ultimately show ?thesis using hpp_run_stuck [of hpp_zero cs] by (simp add: hpp_stuck_def)
qed

theorem hpp_never_exits_witness:
  "list_all nonneg_sample hpp_demo_calls
   \<and> fst (hpp_run hpp_zero hpp_demo_calls) = replicate 12 False
   \<and> currentRoundMinRTT (snd (hpp_run hpp_zero hpp_demo_calls)) = 0
   \<and> rttSampleCount (snd (hpp_run hpp_zero hpp_demo_calls)) = 1
   \<and> \<not> inLSS (snd (hpp_run hpp_zero hpp_demo_calls))"
  using hpp_never_exits_on_nonneg_samples [of hpp_demo_calls]
  by code_simp

section \<open>Properties of the sender\<close>

lemma wrap64_double: "in_int64 (2 * x) \<Longrightarrow> wrap64 (x * 2) = 2 * x"
  by (simp add: wrap64_def in_int64_def)

subsection \<open>Changing the datagram size\<close>

text \<open>
  C10. \<open>SetMaxDatagramSize c s\<close> panics exactly when \<open>s\<close> is smaller than the current
  size, and the panic leaves the sender as it was. Otherwise the size becomes \<open>s\<close>, the
  window becomes the new minimum window exactly when it was the old minimum window and
  stays as it was otherwise, the pacer is told the new size, and no other field changes.
  The minimum window is \<open>2 * size\<close> in the 64-bit arithmetic of the byte count, which is
  the number \<open>2 * size\<close> whenever that fits.
\<close>

theorem SetMaxDatagramSize_spec:
  "(isl (SetMaxDatagramSize E c s) \<longleftrightarrow> s < maxDatagramSize c)
   \<and> (s < maxDatagramSize c \<longrightarrow>
        SetMaxDatagramSize E c s = Inl (DecreasedMaxDatagramSize (maxDatagramSize c) s, c))
   \<and> (maxDatagramSize c \<le> s \<longrightarrow>
        SetMaxDatagramSize E c s =
          Inr (c\<lparr>maxDatagramSize := s,
                 congestionWindow :=
                   (if congestionWindow c = minCongestionWindow c
                    then minCongestionWindow (c\<lparr>maxDatagramSize := s\<rparr>)
                    else congestionWindow c),
                 pacer := pacer_SetMaxDatagramSize E (pacer c) s\<rparr>))
   \<and> (in_int64 (2 * maxDatagramSize c) \<longrightarrow> minCongestionWindow c = 2 * maxDatagramSize c)
   \<and> (in_int64 (2 * s) \<longrightarrow> minCongestionWindow (c\<lparr>maxDatagramSize := s\<rparr>) = 2 * s)"
  by (simp add: SetMaxDatagramSize_def minCongestionWindow_def minCongestionWindowPackets_def
      wrap64_double Let_def)

theorem SetMaxDatagramSize_witness:
  "in_int64 (2 * maxDatagramSize sender_rto) \<and> in_int64 (2 * 1500)
   \<and> maxDatagramSize sender_rto = 1200 \<and> congestionWindow sender_rto = 2400
   \<and> SetMaxDatagramSize plain_externals sender_rto 1500
       = Inr (sender_rto\<lparr>maxDatagramSize := 1500, congestionWindow := 3000\<rparr>)
   \<and> SetMaxDatagramSize plain_externals sender_1200 1500
       = Inr (sender_1200\<lparr>maxDatagramSize := 1500\<rparr>)
   \<and> SetMaxDatagramSize plain_externals sender_rto 1199
       = Inl (DecreasedMaxDatagramSize 1200 1199, sender_rto)"
  using SetMaxDatagramSize_spec [of plain_externals sender_rto 1500]
    SetMaxDatagramSize_spec [of plain_externals sender_rto 1199]
    SetMaxDatagramSize_spec [of plain_externals sender_1200 1500]
  by (simp add: sender_rto_def sender_1200_def OnRetransmissionTimeout_def NewCubicSender_def
      newCubicSender_def plain_externals_def minCongestionWindow_def minCongestionWindowPackets_def
      initialCongestionWindow_const_def wrap64_def in_int64_def quot_def Let_def)

subsection \<open>Evaluating the floating point cut\<close>

text \<open>\<open>bit_length\<close> on numerals, for evaluating \<open>mul_renoBeta\<close> by rewriting.\<close>

lemma bit_length_0: "bit_length 0 = 0"
  by (simp add: bit_length.simps)

lemma bit_length_Suc_0: "bit_length (Suc 0) = 1"
  by (simp add: bit_length.simps)

lemma bit_length_One: "bit_length (numeral Num.One) = 1"
  by (simp add: bit_length.simps)

lemma bit_length_Bit0: "bit_length (numeral (Num.Bit0 k)) = Suc (bit_length (numeral k))"
  by (subst bit_length.simps) simp

lemma bit_length_Bit1: "bit_length (numeral (Num.Bit1 k)) = Suc (bit_length (numeral k))"
  by (subst bit_length.simps) simp

lemmas bit_length_numeral =
  bit_length_0 bit_length_Suc_0 bit_length_One bit_length_Bit0 bit_length_Bit1

lemma mul_renoBeta_38400: "mul_renoBeta 38400 = 26880"
  by (simp add: mul_renoBeta_def round53_def renoBeta_mantissa_def bit_length_numeral Let_def)

lemma mul_renoBeta_26880: "mul_renoBeta 26880 = 18816"
  by (simp add: mul_renoBeta_def round53_def renoBeta_mantissa_def bit_length_numeral Let_def)

subsection \<open>What tracing leaves alone\<close>

lemma maybeTraceStateChange_fields:
  "hybridSlowStart (maybeTraceStateChange c s) = hybridSlowStart c"
  "hybridSlowStartpp (maybeTraceStateChange c s) = hybridSlowStartpp c"
  "cubic (maybeTraceStateChange c s) = cubic c"
  "pacer (maybeTraceStateChange c s) = pacer c"
  "chosenStartAlgo (maybeTraceStateChange c s) = chosenStartAlgo c"
  "chosenCongestionAlgo (maybeTraceStateChange c s) = chosenCongestionAlgo c"
  "largestSentPacketNumber (maybeTraceStateChange c s) = largestSentPacketNumber c"
  "largestAckedPacketNumber (maybeTraceStateChange c s) = largestAckedPacketNumber c"
  "largestSentAtLastCutback (maybeTraceStateChange c s) = largestSentAtLastCutback c"
  "lastCutbackExitedSlowstart (maybeTraceStateChange c s) = lastCutbackExitedSlowstart c"
  "congestionWindow (maybeTraceStateChange c s) = congestionWindow c"
  "slowStartThreshold (maybeTraceStateChange c s) = slowStartThreshold c"
  "numAckedPackets (maybeTraceStateChange c s) = numAckedPackets c"
  "initialCongestionWindow (maybeTraceStateChange c s) = initialCongestionWindow c"
  "initialMaxCongestionWindow (maybeTraceStateChange c s) = initialMaxCongestionWindow c"
  "maxDatagramSize (maybeTraceStateChange c s) = maxDatagramSize c"
  "tracer (maybeTraceStateChange c s) = tracer c"
  by (simp_all add: maybeTraceStateChange_def)

subsection \<open>Retransmission timeout\<close>




subsection \<open>Losing the same packet twice\<close>

lemma sender_migrated_eq:
  "sender_migrated = sender_1200\<lparr>slowStartThreshold := 12000000\<rparr>"
  by (simp add: sender_migrated_def sender_sent5_def sender_1200_def OnConnectionMigration_def
      OnPacketSent_def NewCubicSender_def newCubicSender_def plain_externals_def
      initialCongestionWindow_const_def wrap64_def Let_def)

text \<open>
  C5, as stated, fails on a reachable state. Packet 5 is sent, the connection migrates
  (which sets the largest sent packet number to invalid), and packet 5 is then reported
  lost twice. The first call records \<open>largestSentAtLastCutback = -1\<close>, so the guard of
  the second call does not hold and the window is cut twice: from 38400 to 26880 and then
  to 18816.
\<close>

theorem OnPacketLost_twice_counterexample:
  "largestSentPacketNumber sender_sent5 = 5
   \<and> largestSentPacketNumber sender_migrated = - 1
   \<and> congestionWindow sender_migrated = 38400
   \<and> congestionWindow (OnPacketLost plain_externals sender_migrated 5 1200 1200) = 26880
   \<and> congestionWindow (OnPacketLost plain_externals
         (OnPacketLost plain_externals sender_migrated 5 1200 1200) 5 1200 1200) = 18816"
  by (simp add: sender_migrated_eq sender_sent5_def sender_1200_def OnPacketLost_def cutback_def
      OnPacketSent_def NewCubicSender_def newCubicSender_def plain_externals_def
      InLowSlowStart_def InSlowStart_def GetCongestionWindow_def maybeTraceStateChange_def
      minCongestionWindow_def minCongestionWindowPackets_def
      initialCongestionWindow_const_def wrap64_def Let_def mul_renoBeta_38400 mul_renoBeta_26880)

text \<open>The fields that decide whether a second report of the loss is ignored.\<close>

lemma OnPacketLost_chosenStartAlgo:
  "chosenStartAlgo (OnPacketLost E c pn b f)
     = (if InLowSlowStart c then ChooseSlowStart else chosenStartAlgo c)"
  by (simp add: OnPacketLost_def cutback_def Let_def split_beta maybeTraceStateChange_fields
      split: CongestionAlgo.splits)

lemma OnPacketLost_hybridSlowStartpp:
  "hybridSlowStartpp (OnPacketLost E c pn b f)
     = (if InLowSlowStart c then hpp_QuitLSS (hybridSlowStartpp c) else hybridSlowStartpp c)"
  by (simp add: OnPacketLost_def cutback_def Let_def split_beta maybeTraceStateChange_fields
      split: CongestionAlgo.splits)

lemma OnPacketLost_largestSentAtLastCutback:
  "largestSentAtLastCutback (OnPacketLost E c pn b f)
     = (if pn \<le> largestSentAtLastCutback c then largestSentAtLastCutback c
        else largestSentPacketNumber c)"
  by (simp add: OnPacketLost_def cutback_def Let_def split_beta maybeTraceStateChange_fields
      split: CongestionAlgo.splits)

lemma OnPacketLost_not_InLowSlowStart: "\<not> InLowSlowStart (OnPacketLost E c pn b f)"
  by (simp add: InLowSlowStart_def OnPacketLost_chosenStartAlgo OnPacketLost_hybridSlowStartpp)

lemma OnPacketLost_guarded:
  assumes "\<not> InLowSlowStart c" and "pn \<le> largestSentAtLastCutback c"
  shows "OnPacketLost E c pn b f = c"
  using assms by (simp add: OnPacketLost_def split: CongestionAlgo.splits)

text \<open>
  C5, amended. When the lost packet number is at most the largest packet number the sender
  has recorded as sent, a second \<open>OnPacketLost\<close> for the same packet number, with any byte
  counts, leaves the state that the first call produced, trace included: the first call
  leaves Limited Slow Start and leaves \<open>largestSentAtLastCutback\<close> at or above the packet
  number, so the second call returns at the guard.
\<close>

theorem OnPacketLost_twice:
  assumes "pn \<le> largestSentPacketNumber c"
  shows "OnPacketLost E (OnPacketLost E c pn b f) pn b' f' = OnPacketLost E c pn b f"
proof -
  have "pn \<le> largestSentAtLastCutback (OnPacketLost E c pn b f)"
    using assms by (simp add: OnPacketLost_largestSentAtLastCutback)
  then show ?thesis
    by (simp add: OnPacketLost_guarded OnPacketLost_not_InLowSlowStart)
qed

theorem OnPacketLost_twice_witness:
  "5 \<le> largestSentPacketNumber sender_sent5
   \<and> congestionWindow (OnPacketLost plain_externals sender_sent5 5 1200 1200) = 26880
   \<and> congestionWindow (OnPacketLost plain_externals
         (OnPacketLost plain_externals sender_sent5 5 1200 1200) 5 1200 1200) = 26880"
  using OnPacketLost_twice [of 5 sender_sent5 plain_externals 1200 1200 1200 1200]
  by (simp add: sender_sent5_def sender_1200_def OnPacketLost_def cutback_def
      OnPacketSent_def NewCubicSender_def newCubicSender_def plain_externals_def
      InLowSlowStart_def InSlowStart_def GetCongestionWindow_def maybeTraceStateChange_def
      minCongestionWindow_def minCongestionWindowPackets_def
      initialCongestionWindow_const_def wrap64_def Let_def mul_renoBeta_38400)

subsection \<open>What no operation changes\<close>

lemma outcome_state_simps:
  "outcome_state (Inr c) = c"
  "outcome_state (Inl (p, c)) = c"
  by (simp_all add: outcome_state_def)

lemma same_setup_refl: "same_setup c c"
  by (simp add: same_setup_def)

lemma same_setup_trans: "same_setup c c' \<Longrightarrow> same_setup c' c'' \<Longrightarrow> same_setup c c''"
  by (simp add: same_setup_def)

lemma same_setup_maybeTraceStateChange:
  "same_setup c (maybeTraceStateChange c' s) = same_setup c c'"
  by (simp add: same_setup_def maybeTraceStateChange_def)

lemma same_setup_update:
  "same_setup c (c'\<lparr>hybridSlowStart := h\<rparr>) = same_setup c c'"
  "same_setup c (c'\<lparr>hybridSlowStartpp := hp\<rparr>) = same_setup c c'"
  "same_setup c (c'\<lparr>cubic := cu\<rparr>) = same_setup c c'"
  "same_setup c (c'\<lparr>pacer := pa\<rparr>) = same_setup c c'"
  "same_setup c (c'\<lparr>chosenStartAlgo := sa\<rparr>) = same_setup c c'"
  "same_setup c (c'\<lparr>largestSentPacketNumber := n1\<rparr>) = same_setup c c'"
  "same_setup c (c'\<lparr>largestAckedPacketNumber := n2\<rparr>) = same_setup c c'"
  "same_setup c (c'\<lparr>largestSentAtLastCutback := n3\<rparr>) = same_setup c c'"
  "same_setup c (c'\<lparr>lastCutbackExitedSlowstart := b\<rparr>) = same_setup c c'"
  "same_setup c (c'\<lparr>congestionWindow := w\<rparr>) = same_setup c c'"
  "same_setup c (c'\<lparr>slowStartThreshold := t\<rparr>) = same_setup c c'"
  "same_setup c (c'\<lparr>numAckedPackets := k\<rparr>) = same_setup c c'"
  "same_setup c (c'\<lparr>maxDatagramSize := m\<rparr>) = same_setup c c'"
  by (simp_all add: same_setup_def)

lemmas same_setup_simps = same_setup_update same_setup_maybeTraceStateChange same_setup_refl

lemma same_setup_maybeIncreaseCwnd:
  "same_setup c (outcome_state (maybeIncreaseCwnd E c rtt pn a f t))"
  by (simp add: maybeIncreaseCwnd_def outcome_state_def Let_def split_beta same_setup_simps
      split: StartAlgo.splits CongestionAlgo.splits)

lemma same_setup_OnPacketAcked:
  "same_setup c (outcome_state (OnPacketAcked E c rtt pn a f t))"
proof -
  let ?c1 = "c\<lparr>largestAckedPacketNumber := max pn (largestAckedPacketNumber c)\<rparr>"
  have "same_setup c ?c1" by (simp add: same_setup_simps)
  moreover have "same_setup ?c1 (outcome_state (maybeIncreaseCwnd E ?c1 rtt pn a f t))"
    by (rule same_setup_maybeIncreaseCwnd)
  ultimately have "same_setup c (outcome_state (maybeIncreaseCwnd E ?c1 rtt pn a f t))"
    by (rule same_setup_trans)
  then show ?thesis
    by (cases "maybeIncreaseCwnd E ?c1 rtt pn a f t")
      (auto simp: OnPacketAcked_def outcome_state_simps Let_def same_setup_simps
        split: StartAlgo.splits)
qed

lemma same_setup_apply_event:
  "same_setup c (outcome_state (apply_event E c e))"
proof (cases e)
  case (PacketSent t pn b r)
  then show ?thesis
    by (simp add: OnPacketSent_def outcome_state_def Let_def same_setup_simps
        split: StartAlgo.splits)
next
  case (ExitCheck rtt)
  then show ?thesis
    by (simp add: MaybeExitSlowStart_def outcome_state_def Let_def split_beta same_setup_simps
        split: StartAlgo.splits)
next
  case (PacketAcked rtt pn a f t)
  then show ?thesis by (simp add: same_setup_OnPacketAcked)
next
  case (PacketLost pn b f)
  then show ?thesis
    by (simp add: OnPacketLost_def cutback_def outcome_state_def Let_def split_beta
        same_setup_simps split: CongestionAlgo.splits)
next
  case (RetransmissionTimeout r)
  then show ?thesis
    by (simp add: OnRetransmissionTimeout_def outcome_state_def Let_def same_setup_simps
        split: StartAlgo.splits)
next
  case ConnectionMigration
  then show ?thesis
    by (simp add: OnConnectionMigration_def outcome_state_def Let_def same_setup_simps
        split: StartAlgo.splits)
next
  case (MaxDatagramSizeSet s)
  then show ?thesis
    by (simp add: SetMaxDatagramSize_def outcome_state_def Let_def same_setup_simps)
qed

lemma same_setup_run_events:
  "same_setup c (outcome_state (run_events E c es))"
proof (induction es arbitrary: c)
  case Nil
  show ?case by (simp add: outcome_state_def same_setup_refl)
next
  case (Cons e es)
  have step: "same_setup c (outcome_state (apply_event E c e))"
    by (rule same_setup_apply_event)
  show ?case
  proof (cases "apply_event E c e")
    case (Inl pc)
    with step show ?thesis by (simp add: outcome_state_def)
  next
    case (Inr c')
    with step have "same_setup c c'" by (simp add: outcome_state_def)
    moreover have "same_setup c' (outcome_state (run_events E c' es))" by (rule Cons.IH)
    ultimately show ?thesis using Inr by (simp add: same_setup_trans)
  qed
qed

subsection \<open>Connection migration\<close>




subsection \<open>The trace\<close>

lemma trace_ok_maybeTraceStateChange:
  "trace_ok c \<Longrightarrow> trace_ok (maybeTraceStateChange c s)"
  by (auto simp: trace_ok_def maybeTraceStateChange_def distinct_adj_append_iff)

lemma trace_ok_update:
  "trace_ok (c\<lparr>hybridSlowStart := h\<rparr>) = trace_ok c"
  "trace_ok (c\<lparr>hybridSlowStartpp := hp\<rparr>) = trace_ok c"
  "trace_ok (c\<lparr>cubic := cu\<rparr>) = trace_ok c"
  "trace_ok (c\<lparr>pacer := pa\<rparr>) = trace_ok c"
  "trace_ok (c\<lparr>chosenStartAlgo := sa\<rparr>) = trace_ok c"
  "trace_ok (c\<lparr>chosenCongestionAlgo := ca\<rparr>) = trace_ok c"
  "trace_ok (c\<lparr>largestSentPacketNumber := n1\<rparr>) = trace_ok c"
  "trace_ok (c\<lparr>largestAckedPacketNumber := n2\<rparr>) = trace_ok c"
  "trace_ok (c\<lparr>largestSentAtLastCutback := n3\<rparr>) = trace_ok c"
  "trace_ok (c\<lparr>lastCutbackExitedSlowstart := b\<rparr>) = trace_ok c"
  "trace_ok (c\<lparr>congestionWindow := w\<rparr>) = trace_ok c"
  "trace_ok (c\<lparr>slowStartThreshold := t\<rparr>) = trace_ok c"
  "trace_ok (c\<lparr>numAckedPackets := k\<rparr>) = trace_ok c"
  "trace_ok (c\<lparr>maxDatagramSize := m\<rparr>) = trace_ok c"
  by (simp_all add: trace_ok_def)

lemmas trace_ok_simps = trace_ok_update trace_ok_maybeTraceStateChange

lemma trace_ok_newCubicSender: "trace_ok (newCubicSender E sa ca m iw imw tr)"
  by (simp add: trace_ok_def newCubicSender_def)

lemma trace_ok_OnPacketSent:
  "trace_ok c \<Longrightarrow> trace_ok (OnPacketSent E c t pn b r)"
  by (simp add: OnPacketSent_def Let_def trace_ok_simps split: StartAlgo.splits)

lemma trace_ok_MaybeExitSlowStart:
  "trace_ok c \<Longrightarrow> trace_ok (outcome_state (MaybeExitSlowStart E c rtt))"
  by (simp add: MaybeExitSlowStart_def outcome_state_def Let_def split_beta trace_ok_simps
      split: StartAlgo.splits)

lemma trace_ok_maybeIncreaseCwnd:
  "trace_ok c \<Longrightarrow> trace_ok (outcome_state (maybeIncreaseCwnd E c rtt pn a f t))"
  by (simp add: maybeIncreaseCwnd_def outcome_state_def Let_def split_beta trace_ok_simps
      split: StartAlgo.splits CongestionAlgo.splits)

lemma trace_ok_OnPacketAcked:
  assumes "trace_ok c"
  shows "trace_ok (outcome_state (OnPacketAcked E c rtt pn a f t))"
proof -
  let ?c1 = "c\<lparr>largestAckedPacketNumber := max pn (largestAckedPacketNumber c)\<rparr>"
  from assms have "trace_ok ?c1" by (simp add: trace_ok_simps)
  then have "trace_ok (outcome_state (maybeIncreaseCwnd E ?c1 rtt pn a f t))"
    by (rule trace_ok_maybeIncreaseCwnd)
  with \<open>trace_ok ?c1\<close> show ?thesis
    by (cases "maybeIncreaseCwnd E ?c1 rtt pn a f t")
      (auto simp: OnPacketAcked_def outcome_state_simps Let_def trace_ok_simps
        split: StartAlgo.splits)
qed

lemma trace_ok_OnPacketLost:
  "trace_ok c \<Longrightarrow> trace_ok (OnPacketLost E c pn b f)"
  by (simp add: OnPacketLost_def cutback_def Let_def split_beta trace_ok_simps
      split: CongestionAlgo.splits)

lemma trace_ok_OnRetransmissionTimeout:
  "trace_ok c \<Longrightarrow> trace_ok (OnRetransmissionTimeout E c r)"
  by (simp add: OnRetransmissionTimeout_def Let_def trace_ok_simps split: StartAlgo.splits)

lemma trace_ok_OnConnectionMigration:
  "trace_ok c \<Longrightarrow> trace_ok (OnConnectionMigration E c)"
  by (simp add: OnConnectionMigration_def Let_def trace_ok_simps split: StartAlgo.splits)

lemma trace_ok_SetMaxDatagramSize:
  "trace_ok c \<Longrightarrow> trace_ok (outcome_state (SetMaxDatagramSize E c s))"
  by (simp add: SetMaxDatagramSize_def outcome_state_def Let_def trace_ok_simps)

lemma trace_ok_apply_event:
  "trace_ok c \<Longrightarrow> trace_ok (outcome_state (apply_event E c e))"
  by (cases e)
    (simp_all add: trace_ok_OnPacketSent trace_ok_MaybeExitSlowStart trace_ok_OnPacketAcked
      trace_ok_OnPacketLost trace_ok_OnRetransmissionTimeout trace_ok_OnConnectionMigration
      trace_ok_SetMaxDatagramSize outcome_state_simps)

lemma trace_ok_run_events:
  "trace_ok c \<Longrightarrow> trace_ok (outcome_state (run_events E c es))"
proof (induction es arbitrary: c)
  case Nil
  then show ?case by (simp add: outcome_state_def)
next
  case (Cons e es)
  from Cons.prems have ok: "trace_ok (outcome_state (apply_event E c e))"
    by (rule trace_ok_apply_event)
  show ?case
  proof (cases "apply_event E c e")
    case (Inl pc)
    with ok show ?thesis by (simp add: outcome_state_def)
  next
    case (Inr c')
    with ok have "trace_ok c'" by (simp add: outcome_state_def)
    then have "trace_ok (outcome_state (run_events E c' es))" by (rule Cons.IH)
    with Inr show ?thesis by simp
  qed
qed

lemma tracer_run_events:
  "tracer (outcome_state (run_events E c es)) = tracer c"
  using same_setup_run_events [of c E es] by (simp add: same_setup_def)

text \<open>
  C9. After every sequence of operations on a sender made by \<open>newCubicSender\<close>, whether
  the sequence ends normally or in a panic, the list of states the tracer has received has
  no two equal neighbours, and with a tracer it starts with \<open>CongestionStateSlowStart\<close>,
  traced at construction (without a tracer nothing is traced). As the list only grows at
  its end, this covers every moment of the run.
\<close>

theorem tracer_never_repeats:
  "distinct_adj (traced (outcome_state
      (run_events E (newCubicSender E sa ca m iw imw tr) es)))
   \<and> take 1 (traced (outcome_state
      (run_events E (newCubicSender E sa ca m iw imw tr) es)))
      = (if tr then [CongestionStateSlowStart] else [])"
proof -
  let ?c = "outcome_state (run_events E (newCubicSender E sa ca m iw imw tr) es)"
  have "trace_ok ?c" by (simp add: trace_ok_run_events trace_ok_newCubicSender)
  moreover have "tracer ?c = tr" by (simp add: tracer_run_events newCubicSender_def)
  ultimately show ?thesis
    by (cases "traced ?c") (auto simp: trace_ok_def)
qed

end
